theory Spec2Isabelle
  imports Complex_Main
begin

section \<open>Python text primitives used by the GRO codec\<close>

text \<open>
  The codec of \<^verbatim>\<open>parmed/gromacs/gromacsgro.py\<close> works on lines of text with the
  built-in string operations of Python. They are modelled on ASCII text: a string is a
  \<^typ>\<open>char list\<close>. Whitespace is the ASCII whitespace of Python 3 (codes 9 to 13 and
  28 to 32), the set that \<^verbatim>\<open>str.strip\<close>, \<^verbatim>\<open>str.split\<close>, \<^verbatim>\<open>int\<close> and
  \<^verbatim>\<open>float\<close> share.
\<close>

definition is_space :: "char \<Rightarrow> bool" where
  "is_space c = (let n = (of_char c :: nat) in (9 \<le> n \<and> n \<le> 13) \<or> (28 \<le> n \<and> n \<le> 32))"

definition is_digit :: "char \<Rightarrow> bool" where
  "is_digit c = (let n = (of_char c :: nat) in 48 \<le> n \<and> n \<le> 57)"

definition digit_val :: "char \<Rightarrow> nat" where
  "digit_val c = of_char c - 48"

text \<open>\<^verbatim>\<open>s.strip()\<close>: whitespace removed at both ends.\<close>

definition strip :: "string \<Rightarrow> string" where
  "strip s = rev (dropWhile is_space (rev (dropWhile is_space s)))"

text \<open>
  \<^verbatim>\<open>s[b:e]\<close>: a negative index counts from the end, and both indices are clipped to
  the string, so a slice never raises.
\<close>

definition norm_index :: "nat \<Rightarrow> int \<Rightarrow> nat" where
  "norm_index n i = (if i < 0 then nat (max 0 (int n + i)) else min n (nat i))"

definition slice :: "'a list \<Rightarrow> int \<Rightarrow> int \<Rightarrow> 'a list" where
  "slice xs b e =
     (let lo = norm_index (length xs) b; hi = norm_index (length xs) e
      in take (hi - lo) (drop lo xs))"

text \<open>\<^verbatim>\<open>s.split()\<close>: the maximal runs of non-whitespace characters, in order.\<close>

fun split_go :: "string \<Rightarrow> string \<Rightarrow> string list" where
  "split_go cur [] = (if cur = [] then [] else [rev cur])"
| "split_go cur (c # cs) =
     (if is_space c then (if cur = [] then split_go [] cs else rev cur # split_go [] cs)
      else split_go (c # cur) cs)"

definition split_ws :: "string \<Rightarrow> string list" where
  "split_ws s = split_go [] s"

text \<open>
  \<^verbatim>\<open>s.index(c, start)\<close>: the first position at or after \<open>start\<close> that holds \<open>c\<close>;
  \<open>None\<close> stands for the ValueError of a missing character.
\<close>

fun index_from :: "nat \<Rightarrow> char \<Rightarrow> string \<Rightarrow> nat option" where
  "index_from k c [] = None"
| "index_from k c (x # xs) = (if x = c then Some k else index_from (Suc k) c xs)"

definition py_index :: "string \<Rightarrow> char \<Rightarrow> nat \<Rightarrow> nat option" where
  "py_index s c start = index_from start c (drop start s)"

text \<open>\<^verbatim>\<open>[i for i, x in enumerate(line) if x == '.']\<close>\<close>

fun positions_from :: "nat \<Rightarrow> char \<Rightarrow> string \<Rightarrow> nat list" where
  "positions_from k c [] = []"
| "positions_from k c (x # xs) =
     (if x = c then k # positions_from (Suc k) c xs else positions_from (Suc k) c xs)"

subsection \<open>Reading numbers\<close>

text \<open>
  A digit part of a Python numeric literal: digits, with single underscores allowed
  between two digits. \<open>digitpart\<close> returns the digits read and the unread rest.
\<close>

fun digitpart_rest :: "string \<Rightarrow> string \<times> string" where
  "digitpart_rest [] = ([], [])"
| "digitpart_rest [c] = (if is_digit c then ([c], []) else ([], [c]))"
| "digitpart_rest (c # d # cs) =
     (if is_digit c then (case digitpart_rest (d # cs) of (ds, r) \<Rightarrow> (c # ds, r))
      else if c = CHR ''_'' \<and> is_digit d
           then (case digitpart_rest cs of (ds, r) \<Rightarrow> (d # ds, r))
      else ([], c # d # cs))"

definition digitpart :: "string \<Rightarrow> (string \<times> string) option" where
  "digitpart s =
     (case s of
        [] \<Rightarrow> None
      | c # cs \<Rightarrow> if is_digit c then (case digitpart_rest cs of (ds, r) \<Rightarrow> Some (c # ds, r))
                 else None)"

definition nat_of_digits :: "string \<Rightarrow> nat" where
  "nat_of_digits ds = foldl (\<lambda>a c. 10 * a + digit_val c) 0 ds"

text \<open>An optional sign: whether it is a minus, and the rest.\<close>

definition take_sign :: "string \<Rightarrow> bool \<times> string" where
  "take_sign s =
     (case s of
        [] \<Rightarrow> (False, [])
      | c # cs \<Rightarrow> if c = CHR ''-'' then (True, cs)
                 else if c = CHR ''+'' then (False, cs) else (False, s))"

text \<open>\<^verbatim>\<open>int(s)\<close> in base 10; \<open>None\<close> stands for ValueError.\<close>

definition py_int :: "string \<Rightarrow> int option" where
  "py_int s =
     (case take_sign (strip s) of
        (neg, u) \<Rightarrow>
          (case digitpart u of
             Some (ds, []) \<Rightarrow>
               Some (if neg then - int (nat_of_digits ds) else int (nat_of_digits ds))
           | _ \<Rightarrow> None))"

text \<open>
  The values of \<^verbatim>\<open>float\<close>. A finite float is represented by the number it denotes:
  the model computes with exact rationals, so the binary rounding of a double, its
  overflow to infinity and the sign of a negative zero are not represented.
\<close>

datatype pyfloat = Finite rat | PInf | NInf | NaN

definition lower :: "char \<Rightarrow> char" where
  "lower c = (let n = (of_char c :: nat) in if 65 \<le> n \<and> n \<le> 90 then char_of (n + 32) else c)"

definition parse_exp :: "rat \<Rightarrow> string \<Rightarrow> rat option" where
  "parse_exp m r =
     (case r of
        [] \<Rightarrow> Some m
      | c # r' \<Rightarrow>
          if c = CHR ''e'' \<or> c = CHR ''E'' then
            (case take_sign r' of
               (neg, u) \<Rightarrow>
                 (case digitpart u of
                    Some (ds, []) \<Rightarrow>
                      Some (if neg then m / 10 ^ nat_of_digits ds
                            else m * 10 ^ nat_of_digits ds)
                  | _ \<Rightarrow> None))
          else None)"

definition mantissa :: "string \<Rightarrow> string \<Rightarrow> rat" where
  "mantissa ip fp = of_nat (nat_of_digits ip) + of_nat (nat_of_digits fp) / 10 ^ length fp"

definition parse_number :: "string \<Rightarrow> rat option" where
  "parse_number u =
     (case digitpart u of
        Some (ip, r1) \<Rightarrow>
          (case r1 of
             [] \<Rightarrow> Some (mantissa ip [])
           | c # r2 \<Rightarrow>
               if c = CHR ''.'' then
                 (case digitpart r2 of
                    Some (fp, r3) \<Rightarrow> parse_exp (mantissa ip fp) r3
                  | None \<Rightarrow> parse_exp (mantissa ip []) r2)
               else parse_exp (mantissa ip []) r1)
      | None \<Rightarrow>
          (case u of
             [] \<Rightarrow> None
           | c # r2 \<Rightarrow>
               if c = CHR ''.'' then
                 (case digitpart r2 of
                    Some (fp, r3) \<Rightarrow> parse_exp (mantissa [] fp) r3
                  | None \<Rightarrow> None)
               else None))"

text \<open>\<^verbatim>\<open>float(s)\<close>; \<open>None\<close> stands for ValueError.\<close>

definition py_float :: "string \<Rightarrow> pyfloat option" where
  "py_float s =
     (case take_sign (strip s) of
        (neg, u) \<Rightarrow>
          if map lower u = ''inf'' \<or> map lower u = ''infinity''
            then Some (if neg then NInf else PInf)
          else if map lower u = ''nan'' then Some NaN
          else (case parse_number u of
                  Some q \<Rightarrow> Some (Finite (if neg then - q else q))
                | None \<Rightarrow> None))"

text \<open>\<^verbatim>\<open>x * 10\<close> on a float.\<close>

fun times10 :: "pyfloat \<Rightarrow> pyfloat" where
  "times10 (Finite q) = Finite (q * 10)"
| "times10 PInf = PInf"
| "times10 NInf = NInf"
| "times10 NaN = NaN"

text \<open>The floats of a list of strings; \<open>None\<close> when one of them is not a float.\<close>

fun floats_of :: "string list \<Rightarrow> pyfloat list option" where
  "floats_of [] = Some []"
| "floats_of (t # ts) =
     (case py_float t of
        None \<Rightarrow> None
      | Some x \<Rightarrow> (case floats_of ts of None \<Rightarrow> None | Some xs \<Rightarrow> Some (x # xs)))"

section \<open>The file as a stream of lines\<close>

text \<open>
  A file open for reading is the list of its lines, each with its line end, in the
  order \<^verbatim>\<open>readline\<close> and iteration deliver them. \<^verbatim>\<open>readline\<close> at the end of the
  file returns the empty string.
\<close>

abbreviation (input) NL :: string where
  "NL \<equiv> [CHR 0x0A]"

definition readline :: "string list \<Rightarrow> string \<times> string list" where
  "readline f = (case f of [] \<Rightarrow> ([], []) | l # ls \<Rightarrow> (l, ls))"

datatype gro_message = Could_not_parse_file | Could_not_parse_atom_record
  | Could_not_understand_box_line

datatype error = GromacsError gro_message | IndexError | UnboundLocalError | TypeError

section \<open>id_format\<close>

text \<open>
  The field of index \<open>i\<close> in \<^verbatim>\<open>id_format\<close>:
  \<^verbatim>\<open>line[(pdeci[0]-4)+(5+ndeci)*(i-1) : (pdeci[0]-4)+(5+ndeci)*i]\<close>.
\<close>

definition id_field :: "string \<Rightarrow> int \<Rightarrow> int \<Rightarrow> int \<Rightarrow> string" where
  "id_field line p0 ndeci i =
     slice line ((p0 - 4) + (5 + ndeci) * (i - 1)) ((p0 - 4) + (5 + ndeci) * i)"

text \<open>
  The body of the second \<^verbatim>\<open>try\<close> of \<^verbatim>\<open>id_format\<close>, on the third line of the file.
  A ValueError is caught and gives \<open>False\<close>; the IndexError of \<^verbatim>\<open>pdeci[1]\<close> or
  \<^verbatim>\<open>pdeci[0]\<close> is not caught and leaves the function.
\<close>

definition id_atom_line :: "string \<Rightarrow> error + bool" where
  "id_atom_line line =
     (if py_int (slice line 0 5) = None then Inr False
      else if strip (slice line 5 10) = [] then Inr False
      else if strip (slice line 10 15) = [] then Inr False
      else if py_int (slice line 15 20) = None then Inr False
      else
        (case positions_from 0 (CHR ''.'') line of
           p0 # p1 # _ \<Rightarrow>
             (case floats_of (map (id_field line (int p0) (int p1 - int p0 - 5)) [1, 2, 3]) of
                None \<Rightarrow> Inr False
              | Some crds \<Rightarrow>
                  if strip (id_field line (int p0) (int p1 - int p0 - 5) 4) = [] then Inr True
                  else (case floats_of (map (id_field line (int p0) (int p1 - int p0 - 5))
                                          [4, 5, 6]) of
                          None \<Rightarrow> Inr False
                        | Some vels \<Rightarrow> Inr True))
         | _ \<Rightarrow> Inl IndexError))"

definition id_format :: "string list \<Rightarrow> error + bool" where
  "id_format f =
     (case readline f of
        (title, f1) \<Rightarrow>
          (case readline f1 of
             (count, f2) \<Rightarrow>
               if py_int (strip count) = None then Inr False
               else (case readline f2 of (line, f3) \<Rightarrow> id_atom_line line)))"

section \<open>parse\<close>

record atom =
  name :: string
  number :: int
  xx :: pyfloat
  xy :: pyfloat
  xz :: pyfloat
  vel :: "(pyfloat \<times> pyfloat \<times> pyfloat) option"
  resname :: string
  resnum :: int

text \<open>
  The three local variables that \<^verbatim>\<open>parse\<close> sets on the first atom line and keeps:
  \<open>pdeci\<close> is the position of the first decimal point from column 20 on, \<open>ndeci\<close> the
  position of the next one, \<open>digits\<close> their distance.
\<close>

record layout =
  pdeci :: nat
  ndeci :: nat
  digits :: nat

definition find_layout :: "string \<Rightarrow> layout option" where
  "find_layout line =
     (case py_index line (CHR ''.'') 20 of
        None \<Rightarrow> None
      | Some p \<Rightarrow>
          (case py_index line (CHR ''.'') (p + 1) of
             None \<Rightarrow> None
           | Some n \<Rightarrow> Some \<lparr>pdeci = p, ndeci = n, digits = n - p\<rparr>))"

text \<open>\<^verbatim>\<open>float(line[20+i*digits : 20+(i+1)*digits])*10\<close>\<close>

definition crd_field :: "string \<Rightarrow> layout \<Rightarrow> nat \<Rightarrow> string" where
  "crd_field line lay i =
     slice line (20 + int i * int (digits lay)) (20 + (int i + 1) * int (digits lay))"

text \<open>\<^verbatim>\<open>line[(pdeci-3)+(6+ndeci)*i : (pdeci-3)+(6+ndeci)*(i+1)]\<close>\<close>

definition vel_field :: "string \<Rightarrow> layout \<Rightarrow> nat \<Rightarrow> string" where
  "vel_field line lay i =
     slice line ((int (pdeci lay) - 3) + (6 + int (ndeci lay)) * int i)
                ((int (pdeci lay) - 3) + (6 + int (ndeci lay)) * (int i + 1))"

text \<open>
  The slice tested for a velocity, with \<open>i = 4\<close>:
  \<^verbatim>\<open>line[(pdeci-4)+(5+ndeci)*(i-1) : (pdeci-4)+(5+ndeci)*i]\<close>.
\<close>

definition vel_probe :: "string \<Rightarrow> layout \<Rightarrow> string" where
  "vel_probe line lay =
     slice line ((int (pdeci lay) - 4) + (5 + int (ndeci lay)) * (4 - 1))
                ((int (pdeci lay) - 4) + (5 + int (ndeci lay)) * 4)"

definition three_floats :: "string \<Rightarrow> string \<Rightarrow> string \<Rightarrow> (pyfloat \<times> pyfloat \<times> pyfloat) option" where
  "three_floats a b c =
     (case py_float a of
        None \<Rightarrow> None
      | Some x \<Rightarrow>
          (case py_float b of
             None \<Rightarrow> None
           | Some y \<Rightarrow>
               (case py_float c of
                  None \<Rightarrow> None
                | Some z \<Rightarrow> Some (times10 x, times10 y, times10 z))))"

text \<open>
  The body of the \<^verbatim>\<open>try\<close> in the loop of \<^verbatim>\<open>parse\<close>: one atom line, with the layout
  found so far. \<open>None\<close> stands for the ValueError or IndexError that the loop turns
  into a GromacsError.
\<close>

definition decode_atom :: "layout option \<Rightarrow> string \<Rightarrow> (atom \<times> layout) option" where
  "decode_atom lay0 line =
     (case py_int (slice line 0 5) of
        None \<Rightarrow> None
      | Some rnum \<Rightarrow>
          (case py_int (slice line 15 20) of
             None \<Rightarrow> None
           | Some atnum \<Rightarrow>
               (case (case lay0 of None \<Rightarrow> find_layout line | Some l \<Rightarrow> Some l) of
                  None \<Rightarrow> None
                | Some lay \<Rightarrow>
                    (case three_floats (crd_field line lay 0) (crd_field line lay 1)
                            (crd_field line lay 2) of
                       None \<Rightarrow> None
                     | Some (x, y, z) \<Rightarrow>
                         (let a = \<lparr>name = strip (slice line 10 15), number = atnum,
                                   xx = x, xy = y, xz = z, vel = None,
                                   resname = strip (slice line 5 10), resnum = rnum\<rparr>
                          in if strip (vel_probe line lay) \<noteq> [] then
                               (case three_floats (vel_field line lay 3) (vel_field line lay 4)
                                       (vel_field line lay 5) of
                                  None \<Rightarrow> None
                                | Some v \<Rightarrow> Some (a\<lparr>vel := Some v\<rparr>, lay))
                             else Some (a, lay))))))"

text \<open>
  The loop \<^verbatim>\<open>for i, line in enumerate(fileobj)\<close>. Its state is the loop index, the
  layout, the Python variable \<^verbatim>\<open>line\<close> (\<open>None\<close> while it is unbound), the atoms added
  to the structure, and the lines of the file not yet read. It returns the atoms, the
  last value of \<^verbatim>\<open>line\<close> and the unread lines.
\<close>

fun parse_loop ::
  "int \<Rightarrow> nat \<Rightarrow> layout option \<Rightarrow> string option \<Rightarrow> atom list \<Rightarrow> string list
     \<Rightarrow> error + (atom list \<times> string option \<times> string list)" where
  "parse_loop natom i lay cur acc [] = Inr (acc, cur, [])"
| "parse_loop natom i lay cur acc (line # rest) =
     (if int i = natom then Inr (acc, Some line, rest)
      else (case decode_atom lay line of
              None \<Rightarrow> Inl (GromacsError Could_not_parse_atom_record)
            | Some (a, lay') \<Rightarrow> parse_loop natom (Suc i) (Some lay') (Some line) (acc @ [a]) rest))"

type_synonym vec = "pyfloat \<times> pyfloat \<times> pyfloat"

text \<open>
  The box that \<^verbatim>\<open>parse\<close> stores. \<open>Lengths_angles\<close> holds the six values of an
  orthorhombic box line. The lengths and angles of a nine-value box line are computed by
  \<^verbatim>\<open>box_vectors_to_lengths_and_angles\<close>, a routine of another module:
  \<open>From_vectors v1 v2 v3\<close> stands for its result on the three vectors handed to it
  (in nanometres), converted to angstroms and degrees. Wrapping the box in a numpy array
  changes its representation only.
\<close>

datatype box = Lengths_angles "pyfloat list" | From_vectors vec vec vec

text \<open>
  The vectors that \<^verbatim>\<open>parse\<close> builds from a box line of nine values:
  \<^verbatim>\<open>[box[0], box[3], box[4]], [box[5], box[1], box[6]], [box[7], box[8], box[2]]\<close>.
\<close>

definition box9_vectors :: "'a list \<Rightarrow> ('a \<times> 'a \<times> 'a) \<times> ('a \<times> 'a \<times> 'a) \<times> ('a \<times> 'a \<times> 'a)" where
  "box9_vectors b =
     ((b ! 0, b ! 3, b ! 4), (b ! 5, b ! 1, b ! 6), (b ! 7, b ! 8, b ! 2))"

text \<open>
  The box from the last value of \<^verbatim>\<open>line\<close>: nothing when the line is blank or holds
  a number of values other than 3 and 9.
\<close>

definition decode_box :: "string \<Rightarrow> error + box option" where
  "decode_box line =
     (if strip line = [] then Inr None
      else (case floats_of (split_ws line) of
              None \<Rightarrow> Inl (GromacsError Could_not_understand_box_line)
            | Some b \<Rightarrow>
                if length b = 3 then
                  Inr (Some (Lengths_angles
                         [times10 (b ! 0), times10 (b ! 1), times10 (b ! 2),
                          Finite 90, Finite 90, Finite 90]))
                else if length b = 9 then
                  (case box9_vectors b of (v1, v2, v3) \<Rightarrow> Inr (Some (From_vectors v1 v2 v3)))
                else Inr None))"

record struct =
  atoms :: "atom list"
  box :: "box option"

text \<open>
  \<^verbatim>\<open>parse\<close> on an open file. The result carries the lines left unread in the file
  next to the structure.
\<close>

definition parse_stream :: "string list \<Rightarrow> error + (struct \<times> string list)" where
  "parse_stream f =
     (case readline f of
        (title, f1) \<Rightarrow>
          (case readline f1 of
             (count, f2) \<Rightarrow>
               (case py_int (strip count) of
                  None \<Rightarrow> Inl (GromacsError Could_not_parse_file)
                | Some natom \<Rightarrow>
                    (case parse_loop natom 0 None None [] f2 of
                       Inl e \<Rightarrow> Inl e
                     | Inr (ats, None, unread) \<Rightarrow> Inl UnboundLocalError
                     | Inr (ats, Some line, unread) \<Rightarrow>
                         (case decode_box line of
                            Inl e \<Rightarrow> Inl e
                          | Inr b \<Rightarrow> Inr (\<lparr>atoms = ats, box = b\<rparr>, unread))))))"

definition parse :: "string list \<Rightarrow> error + struct" where
  "parse f = (case parse_stream f of Inl e \<Rightarrow> Inl e | Inr (s, unread) \<Rightarrow> Inr s)"

section \<open>write\<close>

subsection \<open>The \<^verbatim>\<open>%\<close> formats\<close>

text \<open>The character of a decimal digit \<open>d < 10\<close>.\<close>

definition digit_char :: "nat \<Rightarrow> char" where
  "digit_char d = ''0123456789'' ! d"

fun digits_of :: "nat \<Rightarrow> string" where
  "digits_of n = (if n < 10 then [digit_char n] else digits_of (n div 10) @ [digit_char (n mod 10)])"

declare digits_of.simps [simp del]

definition rjust :: "nat \<Rightarrow> string \<Rightarrow> string" where
  "rjust w s = replicate (w - length s) (CHR '' '') @ s"

definition ljust :: "nat \<Rightarrow> string \<Rightarrow> string" where
  "ljust w s = s @ replicate (w - length s) (CHR '' '')"

definition zfill :: "nat \<Rightarrow> string \<Rightarrow> string" where
  "zfill w s = replicate (w - length s) (CHR ''0'') @ s"

text \<open>\<^verbatim>\<open>'%wd' % n\<close>\<close>

definition fmt_d :: "nat \<Rightarrow> int \<Rightarrow> string" where
  "fmt_d w n = rjust w ((if n < 0 then ''-'' else []) @ digits_of (nat \<bar>n\<bar>))"

text \<open>
  Rounding a non-negative number to the nearest natural number, a tie to the even one:
  the rounding of the \<^verbatim>\<open>%f\<close> format.
\<close>

definition round_half_even :: "rat \<Rightarrow> nat" where
  "round_half_even q =
     (let f = nat \<lfloor>q\<rfloor>; d = q - of_nat f
      in if d < 1 / 2 then f else if 1 / 2 < d then f + 1 else if even f then f else f + 1)"

text \<open>
  \<^verbatim>\<open>'%w.pf' % x\<close> for a finite \<open>x\<close>: the sign, the integer digits, and after a
  point (absent when \<open>p = 0\<close>) exactly \<open>p\<close> digits, padded with spaces on the left to
  \<open>w\<close> characters and never cut.
\<close>

definition num_text :: "nat \<Rightarrow> bool \<Rightarrow> nat \<Rightarrow> string" where
  "num_text p neg r =
     (if neg then ''-'' else []) @ digits_of (r div 10 ^ p) @
     (if p = 0 then [] else CHR ''.'' # zfill p (digits_of (r mod 10 ^ p)))"

definition fmt_f :: "nat \<Rightarrow> nat \<Rightarrow> rat \<Rightarrow> string" where
  "fmt_f w p x = rjust w (num_text p (x < 0) (round_half_even (\<bar>x\<bar> * 10 ^ p)))"

subsection \<open>The structure written\<close>

text \<open>
  What \<^verbatim>\<open>write\<close> reads of an atom: \<^verbatim>\<open>atom.residue.idx\<close>, \<^verbatim>\<open>atom.residue.name\<close>,
  \<^verbatim>\<open>atom.name\<close>, the coordinates and, when the atom has the attribute \<^verbatim>\<open>vx\<close>, the
  velocity. \<^verbatim>\<open>atom.idx\<close> is the position of the atom in \<^verbatim>\<open>struct.atoms\<close>.
  Coordinates are finite numbers.
\<close>

record struct_atom =
  res_idx :: nat
  res_name :: string
  at_name :: string
  at_xx :: rat
  at_xy :: rat
  at_xz :: rat
  at_vel :: "(rat \<times> rat \<times> rat) option"

type_synonym rvec = "rat list"

text \<open>
  A box that is set: its six values, and \<open>box_vectors\<close>, the three vectors that
  \<^verbatim>\<open>reduce_box_vectors(*box_lengths_and_angles_to_vectors(*struct.box))\<close> returns for
  them. The two routines belong to another module, so their result is part of the input.
\<close>

record struct_box =
  box_values :: "rat list"
  box_vectors :: "rvec \<times> rvec \<times> rvec"

record wstruct =
  w_atoms :: "struct_atom list"
  w_box :: "struct_box option"

text \<open>
  The destination: a file name, an object with a \<^verbatim>\<open>write\<close> method, or anything else.
\<close>

datatype dest = Path string | File_like | Not_a_file

text \<open>\<^verbatim>\<open>(fmt % v)[:varwidth]\<close>\<close>

definition field :: "nat \<Rightarrow> nat \<Rightarrow> rat \<Rightarrow> string" where
  "field varwidth p v = slice (fmt_f varwidth p v) 0 (int varwidth)"

text \<open>
  The strings written for one atom, in order. \<open>idx\<close> is \<^verbatim>\<open>atom.idx\<close>.
\<close>

definition write_atom :: "bool \<Rightarrow> nat \<Rightarrow> nat \<Rightarrow> nat \<Rightarrow> struct_atom \<Rightarrow> string list" where
  "write_atom has_vels varwidth precision idx a =
     [fmt_d 5 (int (res_idx a) + 1) @ ljust 5 (res_name a) @ rjust 5 (at_name a) @
        fmt_d 5 (int idx + 1),
      field varwidth precision (at_xx a / 10),
      field varwidth precision (at_xy a / 10),
      field varwidth precision (at_xz a / 10)] @
     (case at_vel a of
        Some (vx, vy, vz) \<Rightarrow>
          if has_vels then
            [field varwidth (precision + 1) (vx / 10),
             field varwidth (precision + 1) (vy / 10),
             field varwidth (precision + 1) (vz / 10)]
          else []
      | None \<Rightarrow> []) @
     [NL]"

fun write_atoms :: "bool \<Rightarrow> nat \<Rightarrow> nat \<Rightarrow> nat \<Rightarrow> struct_atom list \<Rightarrow> string list" where
  "write_atoms has_vels varwidth precision idx [] = []"
| "write_atoms has_vels varwidth precision idx (a # ats) =
     write_atom has_vels varwidth precision idx a @
     write_atoms has_vels varwidth precision (Suc idx) ats"

text \<open>
  The loop that finds the extent of the molecule along one axis: \<^verbatim>\<open>dim[0]\<close> and
  \<^verbatim>\<open>dim[1]\<close> after the loop over all atoms.
\<close>

fun extent :: "rat \<times> rat \<Rightarrow> rat list \<Rightarrow> rat \<times> rat" where
  "extent (lo, hi) [] = (lo, hi)"
| "extent (lo, hi) (x # xs) = extent (min lo x, max hi x) xs"

definition box_side :: "rat \<times> rat \<Rightarrow> rat" where
  "box_side d = (snd d - fst d + 5) / 10"

text \<open>
  The values of the box line, in the order \<^verbatim>\<open>write\<close> gives them to the format:
  three of them when the three angles are right angles, nine otherwise.
\<close>

definition box3_components :: "rvec \<Rightarrow> rvec \<Rightarrow> rvec \<Rightarrow> rat list" where
  "box3_components a b c = [a ! 0 / 10, b ! 1 / 10, c ! 2 / 10]"

definition box9_components :: "rvec \<Rightarrow> rvec \<Rightarrow> rvec \<Rightarrow> rat list" where
  "box9_components a b c =
     [a ! 0 / 10, b ! 1 / 10, c ! 2 / 10, a ! 1 / 10, a ! 2 / 10,
      b ! 0 / 10, b ! 2 / 10, c ! 0 / 10, c ! 1 / 10]"

text \<open>
  The strings written for the box; \<open>Inl IndexError\<close> is the failure of
  \<^verbatim>\<open>struct.atoms[1]\<close> on a structure of one atom. \<open>tiny\<close> is the constant
  \<^verbatim>\<open>TINY\<close> of \<^verbatim>\<open>parmed.constants\<close>.
\<close>

definition write_box :: "rat \<Rightarrow> wstruct \<Rightarrow> bool \<Rightarrow> error + string list" where
  "write_box tiny s nobox =
     (case w_box s of
        Some bx \<Rightarrow>
          (case box_vectors bx of
             (a, b, c) \<Rightarrow>
               if list_all (\<lambda>x. \<bar>x - 90\<bar> < tiny) (drop 3 (box_values bx)) then
                 Inr [concat (map (fmt_f 10 5) (box3_components a b c)), NL]
               else
                 Inr [concat (map (fmt_f 10 5) (box9_components a b c)), NL])
      | None \<Rightarrow>
          if \<not> nobox \<and> w_atoms s \<noteq> [] then
            (case w_atoms s of
               a0 # a1 # _ \<Rightarrow>
                 Inr [concat (map (fmt_f 10 5)
                        [box_side (extent (at_xx a0, at_xx a1) (map at_xx (w_atoms s))),
                         box_side (extent (at_xy a0, at_xy a1) (map at_xy (w_atoms s))),
                         box_side (extent (at_xz a0, at_xz a1) (map at_xz (w_atoms s)))]), NL]
             | _ \<Rightarrow> Inl IndexError)
          else Inr [])"

text \<open>
  What \<^verbatim>\<open>write\<close> writes before the box: the title, the number of atoms, the atom
  lines. \<^verbatim>\<open>has_vels\<close> holds when every atom has a velocity.
\<close>

definition write_head :: "wstruct \<Rightarrow> nat \<Rightarrow> string list" where
  "write_head s precision =
     [''GROningen MAchine for Chemical Simulation'' @ NL,
      fmt_d 5 (int (length (w_atoms s))) @ NL] @
     write_atoms (list_all (\<lambda>a. at_vel a \<noteq> None) (w_atoms s)) (5 + precision) precision 0
       (w_atoms s)"

text \<open>
  The last statement, \<^verbatim>\<open>if own_handle: dest.close()\<close>. The local variable
  \<^verbatim>\<open>own_handle\<close> is bound (to True) only when the destination is a file name;
  reading it unbound raises UnboundLocalError.
\<close>

fun close_dest :: "dest \<Rightarrow> error option" where
  "close_dest (Path p) = None"
| "close_dest d = Some UnboundLocalError"

text \<open>
  \<^verbatim>\<open>write\<close>: the strings handed to \<^verbatim>\<open>dest.write\<close>, in order, and the exception
  that ends the call, if any.
\<close>

definition write_gro :: "rat \<Rightarrow> wstruct \<Rightarrow> dest \<Rightarrow> nat \<Rightarrow> bool \<Rightarrow> string list \<times> error option" where
  "write_gro tiny s d precision nobox =
     (case d of
        Not_a_file \<Rightarrow> ([], Some TypeError)
      | _ \<Rightarrow>
          (case write_box tiny s nobox of
             Inl e \<Rightarrow> (write_head s precision, Some e)
           | Inr bl \<Rightarrow> (write_head s precision @ bl, close_dest d)))"

text \<open>
  The lines of a written text, as a reader gets them: each line ends after its line
  feed; a last line without one is kept as it is.
\<close>

fun lines_go :: "string \<Rightarrow> string \<Rightarrow> string list" where
  "lines_go cur [] = (if cur = [] then [] else [rev cur])"
| "lines_go cur (c # cs) =
     (if c = CHR 0x0A then rev (c # cur) # lines_go [] cs else lines_go (c # cur) cs)"

definition lines_of :: "string \<Rightarrow> string list" where
  "lines_of s = lines_go [] s"


section \<open>An example structure\<close>


section \<open>Definitions that follow the wording of the specification\<close>

text \<open>
  The atom lines decoded one after the other, the layout of the first one kept for the
  others: what decoding exactly the given lines as atom records means.
\<close>

fun decode_atoms :: "layout option \<Rightarrow> string list \<Rightarrow> atom list option" where
  "decode_atoms lay [] = Some []"
| "decode_atoms lay (l # ls) =
     (case decode_atom lay l of
        None \<Rightarrow> None
      | Some (a, lay') \<Rightarrow> map_option ((#) a) (decode_atoms (Some lay') ls))"




section \<open>Evaluating the formats\<close>














section \<open>Velocity detection in parse\<close>

text \<open>
  C1. The claim: an atom line whose columns after the third coordinate are blank is
  decoded without a velocity, and an atom line whose fourth field group is not blank is
  decoded with three velocity components. The second half fails on the code: \<^verbatim>\<open>parse\<close>
  keeps in \<open>ndeci\<close> the position of the second decimal point, not the number of
  decimals as \<^verbatim>\<open>id_format\<close> does, so the slice it tests for a velocity starts at
  column 131 of a standard line. The line below carries the velocity
  (0.1, 0.2, 0.3) nm/ps in columns 44 to 67, and is decoded without a velocity.
\<close>

theorem parse_drops_velocity_of_standard_line:
  "parse [''Test'' @ NL, ''    1'' @ NL,
          ''    1SOL     OW    1   1.000   2.000   3.000  0.1000  0.2000  0.3000'' @ NL,
          ''   3.00000   3.00000   3.00000'' @ NL]
   = Inr \<lparr>atoms = [\<lparr>name = ''OW'', number = 1, xx = Finite 10, xy = Finite 20,
                      xz = Finite 30, vel = None, resname = ''SOL'', resnum = 1\<rparr>],
          box = Some (Lengths_angles [Finite 30, Finite 30, Finite 30,
                                      Finite 90, Finite 90, Finite 90])\<rparr>"
  by code_simp

section \<open>A file without a box line\<close>

text \<open>
  C2. The claim: a well-formed file whose box line is absent is parsed, with no box.
  On the code, the loop over the lines ends with the last atom line still in \<^verbatim>\<open>line\<close>,
  and that atom line is then read as the box line: its first token is not a number, and
  the parse fails.
\<close>

theorem parse_without_box_line_fails:
  "parse [''Test'' @ NL, ''    1'' @ NL,
          ''    1SOL     OW    1   1.000   2.000   3.000'' @ NL]
   = Inl (GromacsError Could_not_understand_box_line)"
  by code_simp

section \<open>id_format on a line with fewer than two decimal points\<close>

text \<open>
  C8. The claim: \<^verbatim>\<open>id_format\<close> returns a boolean on every input and never raises.
  On a third line whose integer and name columns are well formed and that holds fewer
  than two decimal points, \<^verbatim>\<open>pdeci[1]\<close> raises IndexError, which the function does
  not catch.
\<close>

theorem id_format_raises_IndexError:
  "id_format [''Test'' @ NL, ''    1'' @ NL, ''    1SOL     OW    1   1.000'' @ NL]
   = Inl IndexError"
  by code_simp

section \<open>write on a file-like destination\<close>

text \<open>
  C7. The claim: \<^verbatim>\<open>write\<close> completes without raising for every writable file-like
  destination. On the code, \<^verbatim>\<open>own_handle\<close> is bound only for a file name, and the
  last statement reads it: on a file-like destination every call ends with an
  exception.
\<close>

theorem write_to_file_like_raises:
  "snd (write_gro tiny s File_like precision nobox) \<noteq> None"
  by (simp add: write_gro_def split: sum.split)

section \<open>The order of the nine box values\<close>



section \<open>The lines that parse reads\<close>

lemma parse_loop_split:
  "parse_loop (int (i + length als)) i lay cur acc (als @ b # rest) =
     (case decode_atoms lay als of
        None \<Rightarrow> Inl (GromacsError Could_not_parse_atom_record)
      | Some ats \<Rightarrow> Inr (acc @ ats, Some b, rest))"
proof (induction als arbitrary: i lay cur acc)
  case Nil
  show ?case by simp
next
  case (Cons l als)
  have idx: "int (i + length (l # als)) = int (Suc i + length als)" by simp
  show ?case
  proof (cases "decode_atom lay l")
    case None
    then show ?thesis by simp
  next
    case (Some r)
    obtain a lay' where r: "r = (a, lay')" by (cases r)
    have step: "parse_loop (int (i + length (l # als))) i lay cur acc ((l # als) @ b # rest)
        = parse_loop (int (Suc i + length als)) (Suc i) (Some lay') (Some l) (acc @ [a])
            (als @ b # rest)"
      using Some r by simp
    show ?thesis
      unfolding step Cons.IH
      using Some r by (simp split: option.split)
  qed
qed

text \<open>
  C10. When the file holds more lines than the declared atom count \<open>N\<close>, \<^verbatim>\<open>parse\<close>
  decodes exactly the \<open>N\<close> lines after the two header lines as atom records, takes the
  box from the line after them and from no other, and leaves every later line unread:
  they are what remains of the file, and the result does not depend on them.
\<close>

theorem parse_reads_natom_lines_and_one_box_line:
  assumes "py_int (strip count) = Some (int N)" and "length als = N"
  shows "parse_stream (title # count # als @ b # rest) =
           (case decode_atoms None als of
              None \<Rightarrow> Inl (GromacsError Could_not_parse_atom_record)
            | Some ats \<Rightarrow>
                (case decode_box b of
                   Inl e \<Rightarrow> Inl e
                 | Inr bx \<Rightarrow> Inr (\<lparr>atoms = ats, box = bx\<rparr>, rest)))"
proof -
  have "parse_loop (int N) 0 None None [] (als @ b # rest) =
          (case decode_atoms None als of
             None \<Rightarrow> Inl (GromacsError Could_not_parse_atom_record)
           | Some ats \<Rightarrow> Inr ([] @ ats, Some b, rest))"
    using parse_loop_split [of 0 als None None "[]" b rest] assms(2) by simp
  then show ?thesis
    using assms(1) by (simp add: parse_stream_def readline_def split: option.split)
qed

theorem parse_reads_natom_lines_and_one_box_line_witness:
  "py_int (strip (''    1'' @ NL)) = Some (int 1) \<and>
   length [''    1SOL     OW    1   1.000   2.000   3.000'' @ NL] = 1 \<and>
   parse_stream ((''Test'' @ NL) # (''    1'' @ NL) #
       [''    1SOL     OW    1   1.000   2.000   3.000'' @ NL] @
       (''   3.00000   4.00000   5.00000'' @ NL) # [''   9.00000   9.00000   9.00000'' @ NL, ''not read''])
     = Inr (\<lparr>atoms = [\<lparr>name = ''OW'', number = 1, xx = Finite 10, xy = Finite 20,
                        xz = Finite 30, vel = None, resname = ''SOL'', resnum = 1\<rparr>],
             box = Some (Lengths_angles [Finite 30, Finite 40, Finite 50,
                                         Finite 90, Finite 90, Finite 90])\<rparr>,
            [''   9.00000   9.00000   9.00000'' @ NL, ''not read''])"
proof -
  have h1: "py_int (strip (''    1'' @ NL)) = Some (int 1)" by code_simp
  have h2: "length [''    1SOL     OW    1   1.000   2.000   3.000'' @ NL] = 1" by simp
  have r: "(case decode_atoms None [''    1SOL     OW    1   1.000   2.000   3.000'' @ NL] of
              None \<Rightarrow> Inl (GromacsError Could_not_parse_atom_record)
            | Some ats \<Rightarrow>
                (case decode_box (''   3.00000   4.00000   5.00000'' @ NL) of
                   Inl e \<Rightarrow> Inl e
                 | Inr bx \<Rightarrow> Inr (\<lparr>atoms = ats, box = bx\<rparr>,
                     [''   9.00000   9.00000   9.00000'' @ NL, ''not read''])))
     = Inr (\<lparr>atoms = [\<lparr>name = ''OW'', number = 1, xx = Finite 10, xy = Finite 20,
                        xz = Finite 30, vel = None, resname = ''SOL'', resnum = 1\<rparr>],
             box = Some (Lengths_angles [Finite 30, Finite 40, Finite 50,
                                         Finite 90, Finite 90, Finite 90])\<rparr>,
            [''   9.00000   9.00000   9.00000'' @ NL, ''not read''])"
    by code_simp
  show ?thesis
    using parse_reads_natom_lines_and_one_box_line [OF h1 h2, of "''Test'' @ NL"
        "''   3.00000   4.00000   5.00000'' @ NL"
        "[''   9.00000   9.00000   9.00000'' @ NL, ''not read'']"] h1 h2 r
    by (simp only:)
qed

section \<open>The box derived from the atoms\<close>









section \<open>The width of the fields of an atom line\<close>




section \<open>id_format on the files that parse accepts\<close>

lemma index_from_ge: "index_from k c xs = Some p \<Longrightarrow> k \<le> p"
  by (induction xs arbitrary: k) (auto split: if_splits dest: Suc_leD)

lemma index_from_positions:
  "index_from k c xs = Some p \<Longrightarrow>
     positions_from k c xs = p # positions_from (Suc p) c (drop (Suc (p - k)) xs)"
proof (induction xs arbitrary: k)
  case Nil
  then show ?case by simp
next
  case (Cons x xs)
  show ?case
  proof (cases "x = c")
    case True
    then show ?thesis using Cons.prems by simp
  next
    case False
    then have i: "index_from (Suc k) c xs = Some p" using Cons.prems by simp
    then have "Suc k \<le> p" by (rule index_from_ge)
    then have "Suc (p - Suc k) = p - k" by simp
    then show ?thesis using False Cons.IH [OF i] by simp
  qed
qed

lemma index_from_drop:
  "index_from k c xs = Some p \<Longrightarrow> j \<le> p - k \<Longrightarrow> index_from (k + j) c (drop j xs) = Some p"
proof (induction xs arbitrary: k j)
  case Nil
  then show ?case by simp
next
  case (Cons x xs)
  show ?case
  proof (cases j)
    case 0
    then show ?thesis using Cons.prems by simp
  next
    case (Suc j')
    have "x \<noteq> c" using Cons.prems Suc by (auto split: if_splits)
    then have i: "index_from (Suc k) c xs = Some p" using Cons.prems by simp
    have "j' \<le> p - Suc k" using Cons.prems(2) Suc by simp
    from Cons.IH [OF i this] show ?thesis using Suc by simp
  qed
qed

lemma decode_atom_SomeD:
  assumes "decode_atom None line = Some (a, lay)"
  shows "py_int (slice line 0 5) \<noteq> None" and "py_int (slice line 15 20) \<noteq> None"
    and "find_layout line = Some lay"
    and "three_floats (crd_field line lay 0) (crd_field line lay 1) (crd_field line lay 2) \<noteq> None"
  using assms
  by (auto simp: decode_atom_def Let_def split: option.splits if_splits prod.splits)

lemma three_floats_floats_of: "three_floats a b c \<noteq> None \<Longrightarrow> floats_of [a, b, c] \<noteq> None"
  by (auto simp: three_floats_def split: option.splits)

lemma parse_first_line:
  assumes "parse (title # count # line # rest) = Inr s" and "py_int (strip count) \<noteq> Some 0"
  shows "\<exists>a lay. decode_atom None line = Some (a, lay)"
proof -
  obtain natom where n: "py_int (strip count) = Some natom" and n0: "natom \<noteq> 0"
    using assms by (cases "py_int (strip count)") (auto simp: parse_def parse_stream_def readline_def)
  have "decode_atom None line \<noteq> None"
  proof
    assume "decode_atom None line = None"
    then have "parse_loop natom 0 None None [] (line # rest)
                 = Inl (GromacsError Could_not_parse_atom_record)"
      using n0 by simp
    then show False
      using assms(1) n by (simp add: parse_def parse_stream_def readline_def)
  qed
  then show ?thesis by auto
qed

text \<open>
  C9, as stated: \<^verbatim>\<open>id_format\<close> returns true on every file that \<^verbatim>\<open>parse\<close> converts
  into a structure. The file below has a blank residue name: \<^verbatim>\<open>parse\<close> accepts it,
  and \<^verbatim>\<open>id_format\<close> returns false at its test of columns 5 to 9.
\<close>

theorem parse_ok_id_format_counterexample:
  "parse [''Test'' @ NL, ''    1'' @ NL, ''    1        OW    1   1.000   2.000   3.000'' @ NL, ''   3.00000   3.00000   3.00000'' @ NL]
     = Inr \<lparr>atoms = [\<lparr>name = ''OW'', number = 1, xx = Finite 10, xy = Finite 20,
                        xz = Finite 30, vel = None, resname = [], resnum = 1\<rparr>],
            box = Some (Lengths_angles [Finite 30, Finite 30, Finite 30,
                                        Finite 90, Finite 90, Finite 90])\<rparr> \<and>
   id_format [''Test'' @ NL, ''    1'' @ NL, ''    1        OW    1   1.000   2.000   3.000'' @ NL, ''   3.00000   3.00000   3.00000'' @ NL] = Inr False"
  by code_simp


text \<open>
  C9, amended: \<^verbatim>\<open>id_format\<close> returns true on every file that \<^verbatim>\<open>parse\<close> converts
  into a structure, when the declared atom count is not 0 and the first atom line has
  non-blank residue name and atom name columns, its first decimal point in column 24
  (counted from 0), and after the third coordinate either blank columns of the width of
  a coordinate or three numbers in columns of that width.
\<close>

theorem parse_ok_id_format:
  assumes "parse (title # count # line # rest) = Inr s"
    and "py_int (strip count) \<noteq> Some 0"
    and "strip (slice line 5 10) \<noteq> []" and "strip (slice line 10 15) \<noteq> []"
    and "py_index line (CHR ''.'') 0 = Some 24"
    and "find_layout line = Some lay"
    and "strip (slice line (20 + 3 * int (digits lay)) (20 + 4 * int (digits lay))) = [] \<or>
         floats_of [slice line (20 + 3 * int (digits lay)) (20 + 4 * int (digits lay)),
                    slice line (20 + 4 * int (digits lay)) (20 + 5 * int (digits lay)),
                    slice line (20 + 5 * int (digits lay)) (20 + 6 * int (digits lay))] \<noteq> None"
  shows "id_format (title # count # line # rest) = Inr True"
proof -
  obtain a lay' where d: "decode_atom None line = Some (a, lay')"
    using parse_first_line [OF assms(1,2)] by blast
  note dd = decode_atom_SomeD [OF d]
  have lay': "lay' = lay" using dd(3) assms(6) by simp
  have i0: "index_from 0 (CHR ''.'') line = Some 24"
    using assms(5) by (simp add: py_index_def)
  obtain p n where p: "py_index line (CHR ''.'') 20 = Some p"
    and n: "py_index line (CHR ''.'') (p + 1) = Some n"
    and lay: "lay = \<lparr>pdeci = p, ndeci = n, digits = n - p\<rparr>"
    using assms(6) by (auto simp: find_layout_def split: option.splits)
  have "index_from (0 + 20) (CHR ''.'') (drop 20 line) = Some 24"
    by (rule index_from_drop [OF i0]) simp
  then have p24: "p = 24" using p by (simp add: py_index_def)
  have n25: "index_from 25 (CHR ''.'') (drop 25 line) = Some n"
    using n p24 by (simp add: py_index_def)
  then have nge: "25 \<le> n" by (rule index_from_ge)
  have pos: "positions_from 0 (CHR ''.'') line
               = 24 # n # positions_from (Suc n) (CHR ''.'') (drop (Suc (n - 25)) (drop 25 line))"
    using index_from_positions [OF i0] index_from_positions [OF n25] by simp
  have dg: "int (digits lay) = int n - 24"
    using nge lay p24 by simp
  have f1: "id_field line 24 (int n - 29) 1 = crd_field line lay 0"
    and f2: "id_field line 24 (int n - 29) 2 = crd_field line lay 1"
    and f3: "id_field line 24 (int n - 29) 3 = crd_field line lay 2"
    by (simp_all add: id_field_def crd_field_def dg algebra_simps)
  have f4: "id_field line 24 (int n - 29) 4
              = slice line (20 + 3 * int (digits lay)) (20 + 4 * int (digits lay))"
    and f5: "id_field line 24 (int n - 29) 5
              = slice line (20 + 4 * int (digits lay)) (20 + 5 * int (digits lay))"
    and f6: "id_field line 24 (int n - 29) 6
              = slice line (20 + 5 * int (digits lay)) (20 + 6 * int (digits lay))"
    by (simp_all add: id_field_def dg algebra_simps)
  obtain cr where c:
    "floats_of [crd_field line lay 0, crd_field line lay 1, crd_field line lay 2] = Some cr"
    using three_floats_floats_of [OF dd(4)] lay' by auto
  obtain r1 r2 where r1: "py_int (slice line 0 5) = Some r1"
    and r2: "py_int (slice line 15 20) = Some r2"
    using dd(1,2) by auto
  have "id_atom_line line = Inr True"
    using assms(7)
  proof
    assume blank: "strip (slice line (20 + 3 * int (digits lay)) (20 + 4 * int (digits lay))) = []"
    show ?thesis
      unfolding id_atom_line_def pos using c
      by (simp add: r1 r2 assms(3,4) f1 f2 f3 f4 blank del: floats_of.simps)
  next
    assume "floats_of [slice line (20 + 3 * int (digits lay)) (20 + 4 * int (digits lay)),
                    slice line (20 + 4 * int (digits lay)) (20 + 5 * int (digits lay)),
                    slice line (20 + 5 * int (digits lay)) (20 + 6 * int (digits lay))] \<noteq> None"
    then obtain vv where vv:
      "floats_of [slice line (20 + 3 * int (digits lay)) (20 + 4 * int (digits lay)),
                  slice line (20 + 4 * int (digits lay)) (20 + 5 * int (digits lay)),
                  slice line (20 + 5 * int (digits lay)) (20 + 6 * int (digits lay))] = Some vv"
      by auto
    show ?thesis
      unfolding id_atom_line_def pos using c vv
      by (simp add: r1 r2 assms(3,4) f1 f2 f3 f4 f5 f6 del: floats_of.simps)
  qed
  moreover have "py_int (strip count) \<noteq> None"
    using assms(1) by (auto simp: parse_def parse_stream_def readline_def split: option.splits)
  ultimately show ?thesis
    by (simp add: id_format_def readline_def)
qed

theorem parse_ok_id_format_witness:
  "parse [''Test'' @ NL, ''    1'' @ NL, ''    1SOL     OW    1   1.000   2.000   3.000'' @ NL, ''   3.00000   3.00000   3.00000'' @ NL]
     = Inr \<lparr>atoms = [\<lparr>name = ''OW'', number = 1, xx = Finite 10, xy = Finite 20,
                        xz = Finite 30, vel = None, resname = ''SOL'', resnum = 1\<rparr>],
            box = Some (Lengths_angles [Finite 30, Finite 30, Finite 30,
                                        Finite 90, Finite 90, Finite 90])\<rparr> \<and>
   py_int (strip (''    1'' @ NL)) \<noteq> Some 0 \<and>
   strip (slice (''    1SOL     OW    1   1.000   2.000   3.000'' @ NL) 5 10) \<noteq> [] \<and>
   strip (slice (''    1SOL     OW    1   1.000   2.000   3.000'' @ NL) 10 15) \<noteq> [] \<and>
   py_index (''    1SOL     OW    1   1.000   2.000   3.000'' @ NL) (CHR ''.'') 0 = Some 24 \<and>
   find_layout (''    1SOL     OW    1   1.000   2.000   3.000'' @ NL) = Some \<lparr>pdeci = 24, ndeci = 32, digits = 8\<rparr> \<and>
   id_format [''Test'' @ NL, ''    1'' @ NL, ''    1SOL     OW    1   1.000   2.000   3.000'' @ NL, ''   3.00000   3.00000   3.00000'' @ NL] = Inr True"
proof -
  have h1: "parse [''Test'' @ NL, ''    1'' @ NL, ''    1SOL     OW    1   1.000   2.000   3.000'' @ NL, ''   3.00000   3.00000   3.00000'' @ NL]
     = Inr \<lparr>atoms = [\<lparr>name = ''OW'', number = 1, xx = Finite 10, xy = Finite 20,
                        xz = Finite 30, vel = None, resname = ''SOL'', resnum = 1\<rparr>],
            box = Some (Lengths_angles [Finite 30, Finite 30, Finite 30,
                                        Finite 90, Finite 90, Finite 90])\<rparr>"
    by code_simp
  have h2: "py_int (strip (''    1'' @ NL)) \<noteq> Some 0" by code_simp
  have h3: "strip (slice (''    1SOL     OW    1   1.000   2.000   3.000'' @ NL) 5 10) \<noteq> []" by code_simp
  have h4: "strip (slice (''    1SOL     OW    1   1.000   2.000   3.000'' @ NL) 10 15) \<noteq> []" by code_simp
  have h5: "py_index (''    1SOL     OW    1   1.000   2.000   3.000'' @ NL) (CHR ''.'') 0 = Some 24" by code_simp
  have h6: "find_layout (''    1SOL     OW    1   1.000   2.000   3.000'' @ NL) = Some \<lparr>pdeci = 24, ndeci = 32, digits = 8\<rparr>"
    by code_simp
  have h7: "strip (slice (''    1SOL     OW    1   1.000   2.000   3.000'' @ NL)
                (20 + 3 * int (digits \<lparr>pdeci = 24, ndeci = 32, digits = 8\<rparr>))
                (20 + 4 * int (digits \<lparr>pdeci = 24, ndeci = 32, digits = 8\<rparr>))) = []"
    by code_simp
  from parse_ok_id_format [OF h1 h2 h3 h4 h5 h6 disjI1 [OF h7]] h1 h2 h3 h4 h5 h6
  show ?thesis by blast
qed

end
